theory Spec2Isabelle
  imports Main
begin

section \<open>The header \<^verbatim>\<open>longhorn_mobile.h\<close>\<close>

text \<open>
  The repository's source is one C header,
  \<^verbatim>\<open>test-project-ios/Test_Project/longhorn_mobile.h\<close>. It holds preprocessor
  directives, blank lines and function prototypes. The header is embedded line by line:
  one value of type \<open>line\<close> for each of its lines, in the order of the file.
\<close>

subsection \<open>Types and prototypes\<close>

text \<open>
  The C types the header writes: \<^verbatim>\<open>void\<close>, \<^verbatim>\<open>bool\<close> (of \<^verbatim>\<open>stdbool.h\<close>),
  \<^verbatim>\<open>uint32_t\<close> (of \<^verbatim>\<open>stdint.h\<close>), \<^verbatim>\<open>float\<close>, \<^verbatim>\<open>char\<close>, the qualifier
  \<^verbatim>\<open>const\<close> and the pointer declarator.
\<close>

datatype ctype = CVoid | CBool | CUInt32 | CFloat | CChar | CConst ctype | CPtr ctype

datatype param = Param (ptype: ctype) (pname: string)

text \<open>
  A storage-class specifier before a function declaration decides its linkage. A
  declaration without one is treated as if it were \<^verbatim>\<open>extern\<close>.
\<close>

datatype storage = Unspecified | Extern | Static

datatype linkage = External | Internal

fun linkage_of :: "storage \<Rightarrow> linkage" where
  "linkage_of Static = Internal"
| "linkage_of Extern = External"
| "linkage_of Unspecified = External"

text \<open>
  A prototype: storage class, return type, name and parameter list. The C parameter list
  \<^verbatim>\<open>(void)\<close> declares no parameter and is the empty list.
\<close>

datatype prototype =
  Prototype (storage_class: storage) (ret: ctype) (fname: string) (params: "param list")

text \<open>
  The kinds of line a header file can hold. Of the last five kinds (a function with a
  body, a type definition, an object declaration, the opening \<^verbatim>\<open>extern "..." {\<close> of a
  linkage specification and the brace that closes it) the header under study has none;
  they are part of the type so that their absence is a statement about the header and
  not about the type.
\<close>

datatype line =
    IfNDef string
  | Define string
  | EndIf
  | IncludeSys string
  | Blank
  | Proto prototype
  | FunDef prototype
  | TypeDef string
  | ObjDecl ctype string
  | LinkageSpec string
  | LinkageEnd

subsection \<open>The ten prototypes, lines 7 to 16\<close>

definition longhorn_init :: prototype where
  "longhorn_init = Prototype Unspecified CBool ''longhorn_init'' []"

definition longhorn_create_with_metal :: prototype where
  "longhorn_create_with_metal =
     Prototype Unspecified CBool ''longhorn_create_with_metal''
       [Param (CPtr CVoid) ''metal_layer'', Param CUInt32 ''width'', Param CUInt32 ''height'']"

definition longhorn_load_game :: prototype where
  "longhorn_load_game =
     Prototype Unspecified CBool ''longhorn_load_game'' [Param (CPtr (CConst CChar)) ''path'']"

definition longhorn_start :: prototype where
  "longhorn_start = Prototype Unspecified CBool ''longhorn_start'' []"

definition longhorn_update :: prototype where
  "longhorn_update = Prototype Unspecified CBool ''longhorn_update'' []"

definition longhorn_handle_touch_start :: prototype where
  "longhorn_handle_touch_start =
     Prototype Unspecified CVoid ''longhorn_handle_touch_start''
       [Param CFloat ''x'', Param CFloat ''y'']"

definition longhorn_handle_touch_move :: prototype where
  "longhorn_handle_touch_move =
     Prototype Unspecified CVoid ''longhorn_handle_touch_move''
       [Param CFloat ''x'', Param CFloat ''y'']"

definition longhorn_handle_touch_end :: prototype where
  "longhorn_handle_touch_end =
     Prototype Unspecified CVoid ''longhorn_handle_touch_end''
       [Param CFloat ''x'', Param CFloat ''y'']"

definition longhorn_resize :: prototype where
  "longhorn_resize =
     Prototype Unspecified CVoid ''longhorn_resize''
       [Param CUInt32 ''width'', Param CUInt32 ''height'']"

definition longhorn_cleanup :: prototype where
  "longhorn_cleanup = Prototype Unspecified CVoid ''longhorn_cleanup'' []"

subsection \<open>The file\<close>

text \<open>
  The lines of the file, first to last. The comment after \<^verbatim>\<open>#endif\<close> on the last line
  is white space to the preprocessor and is not kept.
\<close>

definition longhorn_mobile_h :: "line list" where
  "longhorn_mobile_h =
     [IfNDef ''longhorn_mobile_h'',
      Define ''longhorn_mobile_h'',
      Blank,
      IncludeSys ''stdbool.h'',
      IncludeSys ''stdint.h'',
      Blank,
      Proto longhorn_init,
      Proto longhorn_create_with_metal,
      Proto longhorn_load_game,
      Proto longhorn_start,
      Proto longhorn_update,
      Proto longhorn_handle_touch_start,
      Proto longhorn_handle_touch_move,
      Proto longhorn_handle_touch_end,
      Proto longhorn_resize,
      Proto longhorn_cleanup,
      Blank,
      EndIf]"

subsection \<open>Reading a header\<close>

text \<open>
  The functions a header introduces, by prototype or by definition, in the order of the
  file. The two system headers supply the names \<^verbatim>\<open>bool\<close> and \<^verbatim>\<open>uint32_t\<close>;
  they are not part of the repository and add no function of the interface.
\<close>

fun functions_of :: "line list \<Rightarrow> prototype list" where
  "functions_of [] = []"
| "functions_of (Proto p # ls) = p # functions_of ls"
| "functions_of (FunDef p # ls) = p # functions_of ls"
| "functions_of (_ # ls) = functions_of ls"

definition entry_points :: "line list \<Rightarrow> string list" where
  "entry_points h = map fname (functions_of h)"

text \<open>C has no overloading: a name stands for one function, the first one declared.\<close>

definition lookup :: "line list \<Rightarrow> string \<Rightarrow> prototype option" where
  "lookup h n = find (\<lambda>p. fname p = n) (functions_of h)"

definition param_types :: "prototype \<Rightarrow> ctype list" where
  "param_types p = map ptype (params p)"

definition param_names :: "prototype \<Rightarrow> string list" where
  "param_names p = map pname (params p)"

text \<open>
  The integer types of \<^verbatim>\<open>stdint.h\<close> have an exact width and signedness:
  \<^verbatim>\<open>uint32_t\<close> is unsigned and 32 bits wide. No other type of the header is an
  exact-width integer.
\<close>

fun unsigned_bits :: "ctype \<Rightarrow> nat option" where
  "unsigned_bits CUInt32 = Some 32"
| "unsigned_bits _ = None"

text \<open>A raw, untyped pointer is \<^verbatim>\<open>void*\<close>: a pointer whose pointee has no type.\<close>

fun opaque_pointer :: "ctype \<Rightarrow> bool" where
  "opaque_pointer (CPtr CVoid) = True"
| "opaque_pointer _ = False"

text \<open>
  A C string argument is a pointer to \<^verbatim>\<open>char\<close>, with or without \<^verbatim>\<open>const\<close> on the
  characters.
\<close>

fun string_pointer :: "ctype \<Rightarrow> bool" where
  "string_pointer (CPtr CChar) = True"
| "string_pointer (CPtr (CConst CChar)) = True"
| "string_pointer _ = False"

fun floating :: "ctype \<Rightarrow> bool" where
  "floating CFloat = True"
| "floating _ = False"

text \<open>
  What a call hands back to its caller through the return value: nothing for
  \<^verbatim>\<open>void\<close>, a value of the return type otherwise.
\<close>

fun result_of :: "prototype \<Rightarrow> ctype option" where
  "result_of p = (if ret p = CVoid then None else Some (ret p))"

text \<open>The lines that are more than a declaration.\<close>

fun beyond_declaration :: "line \<Rightarrow> bool" where
  "beyond_declaration (FunDef _) = True"
| "beyond_declaration (TypeDef _) = True"
| "beyond_declaration (ObjDecl _ _) = True"
| "beyond_declaration (LinkageSpec _) = True"
| "beyond_declaration LinkageEnd = True"
| "beyond_declaration _ = False"

definition signature :: "line list \<Rightarrow> string \<Rightarrow> (ctype list \<times> ctype) option" where
  "signature h n = map_option (\<lambda>p. (param_types p, ret p)) (lookup h n)"

definition parameter_names :: "line list \<Rightarrow> string \<Rightarrow> string list option" where
  "parameter_names h n = map_option param_names (lookup h n)"

subsection \<open>Language linkage\<close>

text \<open>
  The header is read by the compiler of whatever translation unit includes it. The
  language of that unit decides the language linkage a function declaration gets when no
  linkage specification encloses it: C linkage in C and Objective-C, C++ linkage in C++.
\<close>

datatype language = LangC | LangObjC | LangCxx

datatype language_linkage = CLinkage | CxxLinkage

fun default_linkage :: "language \<Rightarrow> language_linkage" where
  "default_linkage LangC = CLinkage"
| "default_linkage LangObjC = CLinkage"
| "default_linkage LangCxx = CxxLinkage"

text \<open>Only C++ has linkage specifications; in C and Objective-C they do not compile.\<close>

fun has_linkage_specifications :: "language \<Rightarrow> bool" where
  "has_linkage_specifications LangCxx = True"
| "has_linkage_specifications _ = False"

text \<open>The two linkage names every C++ compiler knows.\<close>

definition named_linkage :: "string \<Rightarrow> language_linkage option" where
  "named_linkage s =
     (if s = ''C'' then Some CLinkage else if s = ''C++'' then Some CxxLinkage else None)"

text \<open>
  The language linkage of each function of a header, in the order of the file. \<open>cur\<close>
  is the linkage in force, \<open>outer\<close> the linkages of the enclosing linkage
  specifications, innermost first. \<open>None\<close>: the header does not compile in that
  language (a linkage specification outside C++, an unknown linkage name, a closing brace
  with no specification open).
\<close>

fun language_linkages ::
  "language \<Rightarrow> language_linkage \<Rightarrow> language_linkage list \<Rightarrow> line list \<Rightarrow>
     (string \<times> language_linkage) list option" where
  "language_linkages lang cur outer [] = Some []"
| "language_linkages lang cur outer (LinkageSpec s # ls) =
     (if has_linkage_specifications lang
      then (case named_linkage s of
              None \<Rightarrow> None
            | Some l \<Rightarrow> language_linkages lang l (cur # outer) ls)
      else None)"
| "language_linkages lang cur [] (LinkageEnd # ls) = None"
| "language_linkages lang cur (l # outer) (LinkageEnd # ls) = language_linkages lang l outer ls"
| "language_linkages lang cur outer (Proto p # ls) =
     map_option ((#) (fname p, cur)) (language_linkages lang cur outer ls)"
| "language_linkages lang cur outer (FunDef p # ls) =
     map_option ((#) (fname p, cur)) (language_linkages lang cur outer ls)"
| "language_linkages lang cur outer (_ # ls) = language_linkages lang cur outer ls"

definition included_from :: "language \<Rightarrow> line list \<Rightarrow> (string \<times> language_linkage) list option" where
  "included_from lang h = language_linkages lang (default_linkage lang) [] h"

subsection \<open>What a call can hand back\<close>

text \<open>
  By its declaration, a function can hand a value back to its caller through the return
  value, through a parameter that points to an object it may store into, or through an
  object the header declares. A pointer to \<^verbatim>\<open>const\<close> does not allow a store, and a
  pointer to \<^verbatim>\<open>void\<close> has no object type behind it: nothing can be stored through it
  as it is declared.
\<close>

fun is_pointer :: "ctype \<Rightarrow> bool" where
  "is_pointer (CPtr _) = True"
| "is_pointer _ = False"

fun out_parameter :: "ctype \<Rightarrow> bool" where
  "out_parameter (CPtr CVoid) = False"
| "out_parameter (CPtr (CConst _)) = False"
| "out_parameter (CPtr _) = True"
| "out_parameter _ = False"

definition parameters_where :: "(ctype \<Rightarrow> bool) \<Rightarrow> line list \<Rightarrow> (string \<times> param) list" where
  "parameters_where P h =
     concat (map (\<lambda>p. map (Pair (fname p)) (filter (\<lambda>q. P (ptype q)) (params p)))
       (functions_of h))"

fun object_declaration :: "line \<Rightarrow> bool" where
  "object_declaration (ObjDecl _ _) = True"
| "object_declaration _ = False"

datatype outcome = Succeeded | Failed

text \<open>
  Modelled from the spec: the engine that implements the entry points is missing from
  the source, which holds their declarations only. The spec's error handling section
  gives the returned boolean its meaning, true on success and false on failure, and
  names no other way for a failure to reach the caller. \<open>reported p out\<close> is what the
  caller of \<open>p\<close> learns when the engine's work behind the call ended with the outcome
  \<open>out\<close>: that boolean for a function declared to return \<^verbatim>\<open>bool\<close>, and nothing for
  any other function.
\<close>

fun reported :: "prototype \<Rightarrow> outcome \<Rightarrow> bool option" where
  "reported p out =
     (case result_of p of
        None \<Rightarrow> None
      | Some t \<Rightarrow> (if t = CBool then Some (out = Succeeded) else None))"

section \<open>Including the header\<close>

text \<open>
  What the preprocessor has built of a translation unit so far: the macros that are
  defined, and the lines that reached the compiler. An included system header is kept as
  one opaque item; the names \<^verbatim>\<open>stdbool.h\<close> and \<^verbatim>\<open>stdint.h\<close> define are reserved
  to the implementation and are not tracked here.
\<close>

record translation_unit =
  macros :: "string list"
  items :: "line list"

text \<open>
  The conditional-inclusion directives of the header, \<^verbatim>\<open>#ifndef\<close> and
  \<^verbatim>\<open>#endif\<close>. The counter is the number of open conditionals inside a group that
  is being skipped, the skipped group included: \<open>0\<close> means the lines are live. A live
  \<^verbatim>\<open>#ifndef M\<close> starts skipping when \<open>M\<close> is defined; while skipping, only the
  nesting of conditionals is followed, up to the \<^verbatim>\<open>#endif\<close> that closes the group.
\<close>

fun preprocess :: "nat \<Rightarrow> line list \<Rightarrow> translation_unit \<Rightarrow> translation_unit" where
  "preprocess k [] tu = tu"
| "preprocess 0 (IfNDef m # ls) tu =
     (if m \<in> set (macros tu) then preprocess (Suc 0) ls tu else preprocess 0 ls tu)"
| "preprocess 0 (Define m # ls) tu = preprocess 0 ls (tu\<lparr>macros := m # macros tu\<rparr>)"
| "preprocess 0 (EndIf # ls) tu = preprocess 0 ls tu"
| "preprocess 0 (Blank # ls) tu = preprocess 0 ls tu"
| "preprocess 0 (l # ls) tu = preprocess 0 ls (tu\<lparr>items := items tu @ [l]\<rparr>)"
| "preprocess (Suc k) (IfNDef m # ls) tu = preprocess (Suc (Suc k)) ls tu"
| "preprocess (Suc k) (EndIf # ls) tu = preprocess k ls tu"
| "preprocess (Suc k) (l # ls) tu = preprocess (Suc k) ls tu"

definition include_header :: "line list \<Rightarrow> translation_unit \<Rightarrow> translation_unit" where
  "include_header h tu = preprocess 0 h tu"

definition empty_unit :: translation_unit where
  "empty_unit = \<lparr>macros = [], items = []\<rparr>"

section \<open>The lifecycle protocol\<close>

datatype call =
    Init | CreateWithMetal | LoadGame | Start | Update
  | TouchStart | TouchMove | TouchEnd | Resize | Cleanup

fun call_name :: "call \<Rightarrow> string" where
  "call_name Init = ''longhorn_init''"
| "call_name CreateWithMetal = ''longhorn_create_with_metal''"
| "call_name LoadGame = ''longhorn_load_game''"
| "call_name Start = ''longhorn_start''"
| "call_name Update = ''longhorn_update''"
| "call_name TouchStart = ''longhorn_handle_touch_start''"
| "call_name TouchMove = ''longhorn_handle_touch_move''"
| "call_name TouchEnd = ''longhorn_handle_touch_end''"
| "call_name Resize = ''longhorn_resize''"
| "call_name Cleanup = ''longhorn_cleanup''"

definition all_calls :: "call list" where
  "all_calls =
     [Init, CreateWithMetal, LoadGame, Start, Update, TouchStart, TouchMove, TouchEnd,
      Resize, Cleanup]"

datatype phase = Fresh | Initialised | SurfaceCreated | GameLoaded | Running | Finished

fun loop_call :: "call \<Rightarrow> bool" where
  "loop_call Update = True"
| "loop_call TouchStart = True"
| "loop_call TouchMove = True"
| "loop_call TouchEnd = True"
| "loop_call Resize = True"
| "loop_call _ = False"

text \<open>
  Modelled from the spec: the host program that calls the entry points and the engine
  behind them are missing from the source, which holds the declarations only. The spec's
  system overview gives the order the functions are meant to be called in: init, then
  create-with-surface, then load-game, then start, then repeated update, touch and resize
  calls, then cleanup. \<open>lifecycle_step\<close> is that protocol as a transition function on the
  phases between the calls; \<open>None\<close> is a call the protocol does not allow in that phase.
\<close>

fun lifecycle_step :: "phase \<Rightarrow> call \<Rightarrow> phase option" where
  "lifecycle_step Fresh c = (if c = Init then Some Initialised else None)"
| "lifecycle_step Initialised c = (if c = CreateWithMetal then Some SurfaceCreated else None)"
| "lifecycle_step SurfaceCreated c = (if c = LoadGame then Some GameLoaded else None)"
| "lifecycle_step GameLoaded c = (if c = Start then Some Running else None)"
| "lifecycle_step Running c =
     (if loop_call c then Some Running else if c = Cleanup then Some Finished else None)"
| "lifecycle_step Finished c = None"

text \<open>A host program's calls, run from a phase: \<open>None\<close> when one of them is not allowed.\<close>

fun run :: "phase \<Rightarrow> call list \<Rightarrow> phase option" where
  "run p [] = Some p"
| "run p (c # cs) = (case lifecycle_step p c of None \<Rightarrow> None | Some q \<Rightarrow> run q cs)"

section \<open>Properties\<close>

subsection \<open>Evaluating the header\<close>

lemmas prototype_defs =
  longhorn_init_def longhorn_create_with_metal_def longhorn_load_game_def
  longhorn_start_def longhorn_update_def longhorn_handle_touch_start_def
  longhorn_handle_touch_move_def longhorn_handle_touch_end_def longhorn_resize_def
  longhorn_cleanup_def

lemma functions_of_header:
  "functions_of longhorn_mobile_h =
     [longhorn_init, longhorn_create_with_metal, longhorn_load_game, longhorn_start,
      longhorn_update, longhorn_handle_touch_start, longhorn_handle_touch_move,
      longhorn_handle_touch_end, longhorn_resize, longhorn_cleanup]"
  by (simp add: longhorn_mobile_h_def)

lemma entry_points_header:
  "entry_points longhorn_mobile_h =
     [''longhorn_init'', ''longhorn_create_with_metal'', ''longhorn_load_game'',
      ''longhorn_start'', ''longhorn_update'', ''longhorn_handle_touch_start'',
      ''longhorn_handle_touch_move'', ''longhorn_handle_touch_end'', ''longhorn_resize'',
      ''longhorn_cleanup'']"
  by (simp add: entry_points_def functions_of_header prototype_defs)

lemma lookup_header:
  "lookup longhorn_mobile_h ''longhorn_init'' = Some longhorn_init"
  "lookup longhorn_mobile_h ''longhorn_create_with_metal'' = Some longhorn_create_with_metal"
  "lookup longhorn_mobile_h ''longhorn_load_game'' = Some longhorn_load_game"
  "lookup longhorn_mobile_h ''longhorn_start'' = Some longhorn_start"
  "lookup longhorn_mobile_h ''longhorn_update'' = Some longhorn_update"
  "lookup longhorn_mobile_h ''longhorn_handle_touch_start'' = Some longhorn_handle_touch_start"
  "lookup longhorn_mobile_h ''longhorn_handle_touch_move'' = Some longhorn_handle_touch_move"
  "lookup longhorn_mobile_h ''longhorn_handle_touch_end'' = Some longhorn_handle_touch_end"
  "lookup longhorn_mobile_h ''longhorn_resize'' = Some longhorn_resize"
  "lookup longhorn_mobile_h ''longhorn_cleanup'' = Some longhorn_cleanup"
  by (simp_all add: lookup_def functions_of_header prototype_defs)

lemmas reading_defs = signature_def parameter_names_def param_types_def param_names_def

subsection \<open>The declared interface\<close>

text \<open>
  Claim C1. The functions the header introduces are exactly ten, each declared once: the
  six lifecycle functions \<^verbatim>\<open>longhorn_init\<close>, \<^verbatim>\<open>longhorn_create_with_metal\<close>,
  \<^verbatim>\<open>longhorn_load_game\<close>, \<^verbatim>\<open>longhorn_start\<close>, \<^verbatim>\<open>longhorn_update\<close> and
  \<^verbatim>\<open>longhorn_cleanup\<close>, the three touch handlers, and \<^verbatim>\<open>longhorn_resize\<close>.
  The list of entry points has ten elements, no name twice, and its set is the union of
  the three groups, so no other entry point is declared.
\<close>
theorem interface_is_ten_entry_points:
  "set (entry_points longhorn_mobile_h) =
     {''longhorn_init'', ''longhorn_create_with_metal'', ''longhorn_load_game'',
      ''longhorn_start'', ''longhorn_update'', ''longhorn_cleanup''}
     \<union> {''longhorn_handle_touch_start'', ''longhorn_handle_touch_move'',
        ''longhorn_handle_touch_end''}
     \<union> {''longhorn_resize''}
   \<and> length (entry_points longhorn_mobile_h) = 10
   \<and> distinct (entry_points longhorn_mobile_h)"
proof (intro conjI)
  show "set (entry_points longhorn_mobile_h) =
     {''longhorn_init'', ''longhorn_create_with_metal'', ''longhorn_load_game'',
      ''longhorn_start'', ''longhorn_update'', ''longhorn_cleanup''}
     \<union> {''longhorn_handle_touch_start'', ''longhorn_handle_touch_move'',
        ''longhorn_handle_touch_end''}
     \<union> {''longhorn_resize''}"
    unfolding entry_points_header by auto
  show "length (entry_points longhorn_mobile_h) = 10"
    unfolding entry_points_header by simp
  show "distinct (entry_points longhorn_mobile_h)"
    unfolding entry_points_header by simp
qed

lemma pointer_parameters_header:
  "parameters_where is_pointer longhorn_mobile_h =
     [(''longhorn_create_with_metal'', Param (CPtr CVoid) ''metal_layer''),
      (''longhorn_load_game'', Param (CPtr (CConst CChar)) ''path'')]"
  by (simp add: parameters_where_def functions_of_header prototype_defs)

lemma out_parameters_header: "parameters_where out_parameter longhorn_mobile_h = []"
  by (simp add: parameters_where_def functions_of_header prototype_defs)

lemma no_object_declared: "filter object_declaration longhorn_mobile_h = []"
  by (simp add: longhorn_mobile_h_def)

text \<open>
  Claim C2. Of the ten functions, exactly \<^verbatim>\<open>longhorn_init\<close>,
  \<^verbatim>\<open>longhorn_create_with_metal\<close>, \<^verbatim>\<open>longhorn_load_game\<close>, \<^verbatim>\<open>longhorn_start\<close>
  and \<^verbatim>\<open>longhorn_update\<close> return a \<^verbatim>\<open>bool\<close>, and exactly the other five
  return \<^verbatim>\<open>void\<close>; the two groups are all ten. For each of the first five the
  caller is told \<^verbatim>\<open>true\<close> when the work succeeded and \<^verbatim>\<open>false\<close> when it failed;
  for each of the other five the caller is told nothing, whether the work succeeded or
  failed. The returned boolean is the only channel back to the caller: no function has a
  parameter it could store a result through (the only pointer parameters of the
  interface are the untyped surface handle and the \<^verbatim>\<open>const\<close> path string, and the
  five \<^verbatim>\<open>void\<close> functions have no pointer parameter at all), and the header declares
  no object that could carry an error code.
\<close>
theorem boolean_and_void_results:
  "map fname (filter (\<lambda>p. result_of p = Some CBool) (functions_of longhorn_mobile_h)) =
     [''longhorn_init'', ''longhorn_create_with_metal'', ''longhorn_load_game'',
      ''longhorn_start'', ''longhorn_update'']
   \<and> map fname (filter (\<lambda>p. result_of p = None) (functions_of longhorn_mobile_h)) =
     [''longhorn_handle_touch_start'', ''longhorn_handle_touch_move'',
      ''longhorn_handle_touch_end'', ''longhorn_resize'', ''longhorn_cleanup'']
   \<and> length (functions_of longhorn_mobile_h) = 10
   \<and> map fname (filter (\<lambda>p. reported p Succeeded = Some True \<and> reported p Failed = Some False)
        (functions_of longhorn_mobile_h)) =
     [''longhorn_init'', ''longhorn_create_with_metal'', ''longhorn_load_game'',
      ''longhorn_start'', ''longhorn_update'']
   \<and> map fname (filter (\<lambda>p. reported p Succeeded = None \<and> reported p Failed = None)
        (functions_of longhorn_mobile_h)) =
     [''longhorn_handle_touch_start'', ''longhorn_handle_touch_move'',
      ''longhorn_handle_touch_end'', ''longhorn_resize'', ''longhorn_cleanup'']
   \<and> parameters_where out_parameter longhorn_mobile_h = []
   \<and> parameters_where is_pointer longhorn_mobile_h =
     [(''longhorn_create_with_metal'', Param (CPtr CVoid) ''metal_layer''),
      (''longhorn_load_game'', Param (CPtr (CConst CChar)) ''path'')]
   \<and> filter object_declaration longhorn_mobile_h = []"
proof (intro conjI)
  show "map fname (filter (\<lambda>p. result_of p = Some CBool) (functions_of longhorn_mobile_h)) =
     [''longhorn_init'', ''longhorn_create_with_metal'', ''longhorn_load_game'',
      ''longhorn_start'', ''longhorn_update'']"
    by (simp add: functions_of_header prototype_defs)
  show "map fname (filter (\<lambda>p. result_of p = None) (functions_of longhorn_mobile_h)) =
     [''longhorn_handle_touch_start'', ''longhorn_handle_touch_move'',
      ''longhorn_handle_touch_end'', ''longhorn_resize'', ''longhorn_cleanup'']"
    by (simp add: functions_of_header prototype_defs)
  show "length (functions_of longhorn_mobile_h) = 10"
    by (simp add: functions_of_header)
  show "map fname (filter (\<lambda>p. reported p Succeeded = Some True \<and> reported p Failed = Some False)
        (functions_of longhorn_mobile_h)) =
     [''longhorn_init'', ''longhorn_create_with_metal'', ''longhorn_load_game'',
      ''longhorn_start'', ''longhorn_update'']"
    by (simp add: functions_of_header prototype_defs)
  show "map fname (filter (\<lambda>p. reported p Succeeded = None \<and> reported p Failed = None)
        (functions_of longhorn_mobile_h)) =
     [''longhorn_handle_touch_start'', ''longhorn_handle_touch_move'',
      ''longhorn_handle_touch_end'', ''longhorn_resize'', ''longhorn_cleanup'']"
    by (simp add: functions_of_header prototype_defs)
  show "parameters_where out_parameter longhorn_mobile_h = []"
    by (rule out_parameters_header)
  show "parameters_where is_pointer longhorn_mobile_h =
     [(''longhorn_create_with_metal'', Param (CPtr CVoid) ''metal_layer''),
      (''longhorn_load_game'', Param (CPtr (CConst CChar)) ''path'')]"
    by (rule pointer_parameters_header)
  show "filter object_declaration longhorn_mobile_h = []"
    by (rule no_object_declared)
qed

text \<open>
  Claim C3. \<^verbatim>\<open>longhorn_create_with_metal\<close> has exactly three parameters: the
  untyped pointer \<^verbatim>\<open>void* metal_layer\<close>, and \<^verbatim>\<open>width\<close> and \<^verbatim>\<open>height\<close>, both
  \<^verbatim>\<open>uint32_t\<close>, an unsigned integer of 32 bits. It returns \<^verbatim>\<open>bool\<close>.
\<close>
theorem create_with_metal_signature:
  "signature longhorn_mobile_h ''longhorn_create_with_metal'' =
     Some ([CPtr CVoid, CUInt32, CUInt32], CBool)
   \<and> parameter_names longhorn_mobile_h ''longhorn_create_with_metal'' =
     Some [''metal_layer'', ''width'', ''height'']
   \<and> opaque_pointer (CPtr CVoid)
   \<and> unsigned_bits CUInt32 = Some 32"
  by (simp add: reading_defs lookup_header longhorn_create_with_metal_def)

text \<open>
  Claim C5. \<^verbatim>\<open>longhorn_load_game\<close> has exactly one parameter, \<^verbatim>\<open>path\<close>, a pointer
  to a character string (\<^verbatim>\<open>const char*\<close>), and returns \<^verbatim>\<open>bool\<close>.
\<close>
theorem load_game_signature:
  "signature longhorn_mobile_h ''longhorn_load_game'' = Some ([CPtr (CConst CChar)], CBool)
   \<and> parameter_names longhorn_mobile_h ''longhorn_load_game'' = Some [''path'']
   \<and> string_pointer (CPtr (CConst CChar))"
  by (simp add: reading_defs lookup_header longhorn_load_game_def)

text \<open>
  Claim C6. Each of \<^verbatim>\<open>longhorn_handle_touch_start\<close>, \<^verbatim>\<open>longhorn_handle_touch_move\<close>
  and \<^verbatim>\<open>longhorn_handle_touch_end\<close> has exactly two parameters, \<^verbatim>\<open>x\<close> and
  \<^verbatim>\<open>y\<close>, both of the floating-point type \<^verbatim>\<open>float\<close>, and returns \<^verbatim>\<open>void\<close>.
\<close>
theorem touch_handler_signatures:
  "signature longhorn_mobile_h ''longhorn_handle_touch_start'' = Some ([CFloat, CFloat], CVoid)
   \<and> signature longhorn_mobile_h ''longhorn_handle_touch_move'' = Some ([CFloat, CFloat], CVoid)
   \<and> signature longhorn_mobile_h ''longhorn_handle_touch_end'' = Some ([CFloat, CFloat], CVoid)
   \<and> parameter_names longhorn_mobile_h ''longhorn_handle_touch_start'' = Some [''x'', ''y'']
   \<and> parameter_names longhorn_mobile_h ''longhorn_handle_touch_move'' = Some [''x'', ''y'']
   \<and> parameter_names longhorn_mobile_h ''longhorn_handle_touch_end'' = Some [''x'', ''y'']
   \<and> floating CFloat"
  by (simp add: reading_defs lookup_header longhorn_handle_touch_start_def
      longhorn_handle_touch_move_def longhorn_handle_touch_end_def)

text \<open>
  Claim C7. \<^verbatim>\<open>longhorn_resize\<close> has exactly the two parameters \<^verbatim>\<open>width\<close> and
  \<^verbatim>\<open>height\<close>, both \<^verbatim>\<open>uint32_t\<close> (unsigned, 32 bits), and returns \<^verbatim>\<open>void\<close>;
  \<^verbatim>\<open>longhorn_cleanup\<close> has no parameter and returns \<^verbatim>\<open>void\<close>.
\<close>
theorem resize_and_cleanup_signatures:
  "signature longhorn_mobile_h ''longhorn_resize'' = Some ([CUInt32, CUInt32], CVoid)
   \<and> parameter_names longhorn_mobile_h ''longhorn_resize'' = Some [''width'', ''height'']
   \<and> unsigned_bits CUInt32 = Some 32
   \<and> signature longhorn_mobile_h ''longhorn_cleanup'' = Some ([], CVoid)"
  by (simp add: reading_defs lookup_header longhorn_resize_def longhorn_cleanup_def)

lemma linkages_of_header:
  "included_from lang longhorn_mobile_h =
     Some (map (\<lambda>n. (n, default_linkage lang)) (entry_points longhorn_mobile_h))"
  by (simp add: included_from_def longhorn_mobile_h_def entry_points_def)

text \<open>
  Claim C8, as amended. The header has 18 lines. None of them is a function definition, a
  type definition, an object declaration or part of a linkage specification: apart from
  the include guard, the two system includes and the blank lines, every line is the
  prototype of one of the ten functions. Each prototype is written without a
  storage-class specifier, so each function has external linkage. Since no linkage
  specification encloses the prototypes, the ten functions take the language linkage of
  the translation unit that includes the header: C linkage when it is included from C or
  from Objective-C.
\<close>
theorem header_is_declarations_only:
  "length longhorn_mobile_h = 18
   \<and> filter beyond_declaration longhorn_mobile_h = []
   \<and> map Proto (functions_of longhorn_mobile_h) =
       filter (\<lambda>l. l \<notin> {Blank, EndIf, IfNDef ''longhorn_mobile_h'',
          Define ''longhorn_mobile_h'', IncludeSys ''stdbool.h'', IncludeSys ''stdint.h''})
         longhorn_mobile_h
   \<and> map (\<lambda>p. linkage_of (storage_class p)) (functions_of longhorn_mobile_h) =
       replicate 10 External
   \<and> map_option (map fst) (included_from lang longhorn_mobile_h) =
       Some (entry_points longhorn_mobile_h)
   \<and> map_option (map snd) (included_from lang longhorn_mobile_h) =
       Some (replicate 10 (default_linkage lang))
   \<and> map_option (map snd) (included_from LangC longhorn_mobile_h) =
       Some (replicate 10 CLinkage)
   \<and> map_option (map snd) (included_from LangObjC longhorn_mobile_h) =
       Some (replicate 10 CLinkage)"
proof (intro conjI)
  show "length longhorn_mobile_h = 18"
    by (simp add: longhorn_mobile_h_def)
  show "filter beyond_declaration longhorn_mobile_h = []"
    by (simp add: longhorn_mobile_h_def)
  show "map Proto (functions_of longhorn_mobile_h) =
       filter (\<lambda>l. l \<notin> {Blank, EndIf, IfNDef ''longhorn_mobile_h'',
          Define ''longhorn_mobile_h'', IncludeSys ''stdbool.h'', IncludeSys ''stdint.h''})
         longhorn_mobile_h"
    by (simp add: longhorn_mobile_h_def)
  show "map (\<lambda>p. linkage_of (storage_class p)) (functions_of longhorn_mobile_h) =
       replicate 10 External"
    by (simp add: functions_of_header prototype_defs numeral_eq_Suc)
  show "map_option (map fst) (included_from lang longhorn_mobile_h) =
       Some (entry_points longhorn_mobile_h)"
    by (simp add: linkages_of_header comp_def)
  have all: "map_option (map snd) (included_from l longhorn_mobile_h) =
       Some (replicate 10 (default_linkage l))" for l
    by (simp add: linkages_of_header entry_points_header numeral_eq_Suc)
  show "map_option (map snd) (included_from lang longhorn_mobile_h) =
       Some (replicate 10 (default_linkage lang))"
    by (rule all)
  show "map_option (map snd) (included_from LangC longhorn_mobile_h) =
       Some (replicate 10 CLinkage)"
    using all [of LangC] by simp
  show "map_option (map snd) (included_from LangObjC longhorn_mobile_h) =
       Some (replicate 10 CLinkage)"
    using all [of LangObjC] by simp
qed

text \<open>
  The claim as it was stated gives the header C linkage without condition. Included
  from a C++ translation unit, all ten functions have C++ linkage.
\<close>
theorem header_cxx_linkage_counterexample:
  "map_option (map snd) (included_from LangCxx longhorn_mobile_h) =
     Some (replicate 10 CxxLinkage)
   \<and> map_option (map snd) (included_from LangCxx longhorn_mobile_h) \<noteq>
     Some (replicate 10 CLinkage)"
  by (simp add: linkages_of_header entry_points_header numeral_eq_Suc)

subsection \<open>The include guard\<close>

lemma guard_defined_skips:
  "''longhorn_mobile_h'' \<in> set (macros tu) \<Longrightarrow> include_header longhorn_mobile_h tu = tu"
  by (simp add: include_header_def longhorn_mobile_h_def)

lemma guard_defined_after:
  "''longhorn_mobile_h'' \<in> set (macros (include_header longhorn_mobile_h tu))"
  by (simp add: include_header_def longhorn_mobile_h_def)

lemma include_twice:
  "include_header longhorn_mobile_h (include_header longhorn_mobile_h tu) =
     include_header longhorn_mobile_h tu"
  by (rule guard_defined_skips [OF guard_defined_after])

lemma first_inclusion:
  "include_header longhorn_mobile_h empty_unit =
     \<lparr>macros = [''longhorn_mobile_h''],
      items = IncludeSys ''stdbool.h'' # IncludeSys ''stdint.h'' #
        map Proto (functions_of longhorn_mobile_h)\<rparr>"
  by (simp add: include_header_def longhorn_mobile_h_def empty_unit_def)

text \<open>
  Claim C9. Including the header \<open>n + 1\<close> times in a row, from any state of the
  translation unit, gives the same macros and the same items as including it once: after
  the first inclusion the guard macro \<^verbatim>\<open>longhorn_mobile_h\<close> is defined, and every
  later inclusion skips from \<^verbatim>\<open>#ifndef\<close> to \<^verbatim>\<open>#endif\<close> and adds nothing.
\<close>
theorem inclusion_idempotent:
  "(include_header longhorn_mobile_h ^^ Suc n) tu = include_header longhorn_mobile_h tu"
proof (induction n)
  case 0
  show ?case by simp
next
  case (Suc n)
  have "(include_header longhorn_mobile_h ^^ Suc (Suc n)) tu =
        include_header longhorn_mobile_h ((include_header longhorn_mobile_h ^^ Suc n) tu)"
    by simp
  also have "\<dots> = include_header longhorn_mobile_h (include_header longhorn_mobile_h tu)"
    by (simp only: Suc.IH)
  also have "\<dots> = include_header longhorn_mobile_h tu"
    by (rule include_twice)
  finally show ?case .
qed

subsection \<open>The order of the calls\<close>

lemma call_names_are_entry_points:
  "map call_name all_calls = entry_points longhorn_mobile_h"
  by (simp add: all_calls_def entry_points_header)

lemma run_append:
  "run p (cs @ ds) = (case run p cs of None \<Rightarrow> None | Some q \<Rightarrow> run q ds)"
  by (induction cs arbitrary: p) (auto split: option.splits)

lemma run_Finished: "run Finished cs = Some q \<longleftrightarrow> cs = [] \<and> q = Finished"
  by (cases cs) auto

lemma run_loop_calls: "list_all loop_call mid \<Longrightarrow> run Running mid = Some Running"
  by (induction mid) auto

lemma run_Running_complete:
  "run Running cs = Some Finished \<Longrightarrow> \<exists>mid. cs = mid @ [Cleanup] \<and> list_all loop_call mid"
proof (induction cs)
  case Nil
  then show ?case by simp
next
  case (Cons c cs)
  show ?case
  proof (cases "loop_call c")
    case True
    with Cons.prems have "run Running cs = Some Finished" by simp
    then obtain mid where "cs = mid @ [Cleanup]" "list_all loop_call mid"
      using Cons.IH by blast
    with True have "c # cs = (c # mid) @ [Cleanup] \<and> list_all loop_call (c # mid)" by simp
    then show ?thesis by blast
  next
    case False
    with Cons.prems have c: "c = Cleanup" and "run Finished cs = Some Finished"
      by (auto split: if_splits)
    then have "cs = []" by (simp add: run_Finished)
    with c have "c # cs = [] @ [Cleanup] \<and> list_all loop_call []" by simp
    then show ?thesis by blast
  qed
qed

lemma run_Running_iff:
  "run Running cs = Some Finished \<longleftrightarrow> (\<exists>mid. cs = mid @ [Cleanup] \<and> list_all loop_call mid)"
  by (auto dest: run_Running_complete simp: run_append run_loop_calls)

lemma run_Fresh_prefix:
  "run Fresh cs = Some Finished \<longleftrightarrow>
     (\<exists>rest. cs = [Init, CreateWithMetal, LoadGame, Start] @ rest \<and> run Running rest = Some Finished)"
proof
  assume r: "run Fresh cs = Some Finished"
  then obtain c1 r1 where 1: "cs = c1 # r1" by (cases cs) auto
  with r have c1: "c1 = Init" and r1: "run Initialised r1 = Some Finished"
    by (auto split: if_splits)
  then obtain c2 r2 where 2: "r1 = c2 # r2" by (cases r1) auto
  with r1 have c2: "c2 = CreateWithMetal" and r2: "run SurfaceCreated r2 = Some Finished"
    by (auto split: if_splits)
  then obtain c3 r3 where 3: "r2 = c3 # r3" by (cases r2) auto
  with r2 have c3: "c3 = LoadGame" and r3: "run GameLoaded r3 = Some Finished"
    by (auto split: if_splits)
  then obtain c4 r4 where 4: "r3 = c4 # r4" by (cases r3) auto
  with r3 have c4: "c4 = Start" and r4: "run Running r4 = Some Finished"
    by (auto split: if_splits)
  from 1 2 3 4 c1 c2 c3 c4 r4
  show "\<exists>rest. cs = [Init, CreateWithMetal, LoadGame, Start] @ rest \<and> run Running rest = Some Finished"
    by simp
next
  assume "\<exists>rest. cs = [Init, CreateWithMetal, LoadGame, Start] @ rest \<and> run Running rest = Some Finished"
  then show "run Fresh cs = Some Finished" by auto
qed

lemma run_extends: "run p cs = Some q \<Longrightarrow> \<exists>rest. run p (cs @ rest) = Some Finished"
proof -
  assume r: "run p cs = Some q"
  have fin: "\<exists>rest. run q rest = Some Finished"
  proof (cases q)
    case Fresh
    have "run Fresh [Init, CreateWithMetal, LoadGame, Start, Cleanup] = Some Finished" by simp
    with Fresh show ?thesis by blast
  next
    case Initialised
    have "run Initialised [CreateWithMetal, LoadGame, Start, Cleanup] = Some Finished" by simp
    with Initialised show ?thesis by blast
  next
    case SurfaceCreated
    have "run SurfaceCreated [LoadGame, Start, Cleanup] = Some Finished" by simp
    with SurfaceCreated show ?thesis by blast
  next
    case GameLoaded
    have "run GameLoaded [Start, Cleanup] = Some Finished" by simp
    with GameLoaded show ?thesis by blast
  next
    case Running
    have "run Running [Cleanup] = Some Finished" by simp
    with Running show ?thesis by blast
  next
    case Finished
    have "run Finished [] = Some Finished" by simp
    with Finished show ?thesis by blast
  qed
  then obtain rest where "run q rest = Some Finished" by blast
  with r have "run p (cs @ rest) = Some Finished" by (simp add: run_append)
  then show ?thesis by blast
qed

lemma run_prefix_closed: "run p (cs @ rest) = Some q \<Longrightarrow> run p cs \<noteq> None"
  by (auto simp: run_append split: option.splits)

text \<open>
  Claim C4. Under the lifecycle protocol, a host program's call sequence runs the whole
  lifecycle exactly when it is \<^verbatim>\<open>longhorn_init\<close>, \<^verbatim>\<open>longhorn_create_with_metal\<close>,
  \<^verbatim>\<open>longhorn_load_game\<close>, \<^verbatim>\<open>longhorn_start\<close>, then any number of update, touch
  and resize calls, then \<^verbatim>\<open>longhorn_cleanup\<close>. Every call sequence the protocol
  allows is the beginning of such a run, and no other sequence is. The calls of the
  protocol are the ten entry points of the header.
\<close>
theorem lifecycle_order:
  "(run Fresh cs = Some Finished \<longleftrightarrow>
      (\<exists>mid. cs = [Init, CreateWithMetal, LoadGame, Start] @ mid @ [Cleanup]
         \<and> list_all loop_call mid))
   \<and> (run Fresh cs \<noteq> None \<longleftrightarrow> (\<exists>rest. run Fresh (cs @ rest) = Some Finished))
   \<and> map call_name all_calls = entry_points longhorn_mobile_h"
proof (intro conjI)
  show "run Fresh cs = Some Finished \<longleftrightarrow>
      (\<exists>mid. cs = [Init, CreateWithMetal, LoadGame, Start] @ mid @ [Cleanup]
         \<and> list_all loop_call mid)"
    unfolding run_Fresh_prefix run_Running_iff by blast
  show "run Fresh cs \<noteq> None \<longleftrightarrow> (\<exists>rest. run Fresh (cs @ rest) = Some Finished)"
    using run_extends [of Fresh cs] run_prefix_closed [of Fresh cs] by blast
  show "map call_name all_calls = entry_points longhorn_mobile_h"
    by (rule call_names_are_entry_points)
qed

end
